theory Spec2Isabelle
  imports Complex_Main "HOL-Library.Sublist"
begin

section \<open>Python strings\<close>

text \<open>
  A Python \<^verbatim>\<open>str\<close> is a sequence of Unicode code points and \<^verbatim>\<open>len\<close> counts code
  points, so a text is a list of code points here. Literals of the source are written
  \<open>py ''...''\<close>. Case folding, \<^verbatim>\<open>\w\<close> and \<^verbatim>\<open>\d\<close> are written out for the code points
  below 256 (ASCII and Latin-1); code points above that are left unchanged by \<open>lower\<close>
  and count as neither word characters nor digits.
\<close>

type_synonym pystr = "int list"

definition py :: "string \<Rightarrow> pystr" where
  "py s = map of_char s"

text \<open>
  The code point of a character, read off its bits; it is the code equation of \<open>py\<close>.
\<close>

fun num_bits :: "bool list \<Rightarrow> num option \<Rightarrow> num option" where
  "num_bits [] acc = acc"
| "num_bits (False # bs) None = num_bits bs None"
| "num_bits (True # bs) None = num_bits bs (Some num.One)"
| "num_bits (False # bs) (Some n) = num_bits bs (Some (num.Bit0 n))"
| "num_bits (True # bs) (Some n) = num_bits bs (Some (num.Bit1 n))"

fun int_of_num_option :: "num option \<Rightarrow> int" where
  "int_of_num_option None = 0"
| "int_of_num_option (Some n) = numeral n"

fun code_point :: "char \<Rightarrow> int" where
  "code_point (Char b0 b1 b2 b3 b4 b5 b6 b7) =
     int_of_num_option (num_bits [b7, b6, b5, b4, b3, b2, b1, b0] None)"

lemma code_point_eq: "code_point c = of_char c"
proof (cases c)
  case (Char b0 b1 b2 b3 b4 b5 b6 b7)
  show ?thesis
    unfolding Char
    by (cases b0; cases b1; cases b2; cases b3; cases b4; cases b5; cases b6; cases b7; simp)
qed

lemma py_code [code]: "py s = map code_point s"
  by (simp add: py_def code_point_eq)

definition lower_cp :: "int \<Rightarrow> int" where
  "lower_cp c =
     (if 65 \<le> c \<and> c \<le> 90 then c + 32
      else if 192 \<le> c \<and> c \<le> 222 \<and> c \<noteq> 215 then c + 32
      else c)"

definition lower :: "pystr \<Rightarrow> pystr" where
  "lower s = map lower_cp s"

text \<open>The code points for which \<^verbatim>\<open>str.isspace\<close> holds; \<^verbatim>\<open>str.strip()\<close> removes them at both ends.\<close>

definition is_space :: "int \<Rightarrow> bool" where
  "is_space c =
     (if c \<le> 32 then (9 \<le> c \<and> c \<le> 13) \<or> (28 \<le> c \<and> c \<le> 32)
      else c = 133 \<or> c = 160 \<or> c = 5760 \<or> (8192 \<le> c \<and> c \<le> 8202) \<or> c = 8232
        \<or> c = 8233 \<or> c = 8239 \<or> c = 8287 \<or> c = 12288)"

definition lstrip :: "pystr \<Rightarrow> pystr" where
  "lstrip s = dropWhile is_space s"

definition rstrip :: "pystr \<Rightarrow> pystr" where
  "rstrip s = rev (dropWhile is_space (rev s))"

definition strip :: "pystr \<Rightarrow> pystr" where
  "strip s = rstrip (lstrip s)"

fun startswith :: "pystr \<Rightarrow> pystr \<Rightarrow> bool" where
  "startswith s [] = True"
| "startswith [] (p # ps) = False"
| "startswith (c # cs) (p # ps) = (if c = p then startswith cs ps else False)"

text \<open>\<^verbatim>\<open>sub in s\<close>.\<close>

fun contains :: "pystr \<Rightarrow> pystr \<Rightarrow> bool"
  and contains_next :: "bool \<Rightarrow> pystr \<Rightarrow> pystr \<Rightarrow> bool" where
  "contains [] sub = (sub = [])"
| "contains (c # cs) sub = contains_next (startswith (c # cs) sub) cs sub"
| "contains_next True cs sub = True"
| "contains_next False cs sub = contains cs sub"

text \<open>\<^verbatim>\<open>s.find(sub, start)\<close>: the lowest index from \<open>start\<close> on where \<open>sub\<close> begins, or \<open>-1\<close>.\<close>

fun find_in :: "pystr \<Rightarrow> nat \<Rightarrow> pystr \<Rightarrow> int"
  and find_next :: "bool \<Rightarrow> pystr \<Rightarrow> nat \<Rightarrow> pystr \<Rightarrow> int" where
  "find_in sub pos [] = (if sub = [] then int pos else - 1)"
| "find_in sub pos (c # cs) = find_next (startswith (c # cs) sub) sub pos cs"
| "find_next True sub pos cs = int pos"
| "find_next False sub pos cs = find_in sub (Suc pos) cs"

text \<open>\<open>take\<close> and \<open>drop\<close>, written by pattern matching on the count.\<close>

fun drop_n :: "nat \<Rightarrow> 'a list \<Rightarrow> 'a list" where
  "drop_n 0 xs = xs"
| "drop_n (Suc n) [] = []"
| "drop_n (Suc n) (x # xs) = drop_n n xs"

fun take_n :: "nat \<Rightarrow> 'a list \<Rightarrow> 'a list" where
  "take_n 0 xs = []"
| "take_n (Suc n) [] = []"
| "take_n (Suc n) (x # xs) = x # take_n n xs"

lemma drop_n_eq: "drop_n n xs = drop n xs"
  by (induction n xs rule: drop_n.induct) simp_all


definition py_find :: "pystr \<Rightarrow> pystr \<Rightarrow> nat \<Rightarrow> int" where
  "py_find s sub start = (if length s < start then - 1 else find_in sub start (drop_n start s))"

text \<open>\<^verbatim>\<open>s.rfind(ch)\<close> for a single character: the highest index, or \<open>-1\<close>.\<close>

fun rfind_from :: "int \<Rightarrow> nat \<Rightarrow> int \<Rightarrow> pystr \<Rightarrow> int" where
  "rfind_from ch pos found [] = found"
| "rfind_from ch pos found (c # cs) =
     rfind_from ch (Suc pos) (if c = ch then int pos else found) cs"

definition rfind :: "pystr \<Rightarrow> int \<Rightarrow> int" where
  "rfind s ch = rfind_from ch 0 (- 1) s"

text \<open>\<^verbatim>\<open>s.count(ch)\<close> for a single character.\<close>

definition count_char :: "pystr \<Rightarrow> int \<Rightarrow> nat" where
  "count_char s ch = length (filter (\<lambda>c. c = ch) s)"

text \<open>
  Python slicing \<^verbatim>\<open>s[i:j]\<close> with integer bounds: a negative bound counts from the end,
  and both bounds are clipped to the string.
\<close>

definition clip_index :: "nat \<Rightarrow> int \<Rightarrow> nat" where
  "clip_index n i = (if i < 0 then nat (int n + i) else min n (nat i))"

definition slice :: "pystr \<Rightarrow> int \<Rightarrow> int \<Rightarrow> pystr" where
  "slice s i j =
     (let a = clip_index (length s) i; b = clip_index (length s) j
      in take_n (b - a) (drop_n a s))"


text \<open>A text between single quotes, as in \<^verbatim>\<open>f"'{word}'"\<close>.\<close>

definition quoted :: "pystr \<Rightarrow> pystr" where
  "quoted s = [39] @ s @ [39]"


lemma find_in_bounds:
  "find_in sub pos s \<noteq> - 1 \<Longrightarrow>
     int pos \<le> find_in sub pos s \<and> find_in sub pos s \<le> int (pos + length s)"
proof (induction s arbitrary: pos)
  case Nil
  then show ?case by (simp split: if_splits)
next
  case (Cons c cs)
  show ?case
  proof (cases "startswith (c # cs) sub")
    case True
    then show ?thesis by simp
  next
    case False
    with Cons.prems have "find_in sub (Suc pos) cs \<noteq> - 1" by simp
    from Cons.IH [OF this] False show ?thesis by simp
  qed
qed

lemma py_find_bounds:
  assumes "py_find s sub start \<noteq> - 1"
  shows "int start \<le> py_find s sub start" and "py_find s sub start \<le> int (length s)"
proof -
  from assms have le: "start \<le> length s" and ne: "find_in sub start (drop start s) \<noteq> - 1"
    by (auto simp: py_find_def drop_n_eq split: if_splits)
  from find_in_bounds [OF ne] le
  show "int start \<le> py_find s sub start" and "py_find s sub start \<le> int (length s)"
    by (simp_all add: py_find_def drop_n_eq)
qed

text \<open>
  The loop of \<^verbatim>\<open>check_ai_buzzwords\<close> that collects every occurrence:
  \<^verbatim>\<open>while True: pos = s.find(sub, start); if pos == -1: break; ...; start = pos + 1\<close>.
\<close>

function find_all :: "pystr \<Rightarrow> pystr \<Rightarrow> nat \<Rightarrow> nat list" where
  "find_all s sub start =
     (let pos = py_find s sub start
      in if pos = - 1 then [] else nat pos # find_all s sub (nat pos + 1))"
  by pat_completeness auto
termination
proof (relation "measure (\<lambda>(s, sub, start). Suc (length s) - start)")
  show "wf (measure (\<lambda>(s, sub, start). Suc (length s) - start))" by simp
next
  fix s sub :: pystr and start :: nat and pos :: int
  assume "pos = py_find s sub start" and "pos \<noteq> - 1"
  then have "py_find s sub start \<noteq> - 1" by simp
  from py_find_bounds [OF this] \<open>pos = py_find s sub start\<close>
  show "((s, sub, nat pos + 1), (s, sub, start))
          \<in> measure (\<lambda>(s, sub, start). Suc (length s) - start)"
    by simp
qed

declare find_all.simps [simp del]

section \<open>Regular expressions\<close>

text \<open>
  The patterns of the source use literals, character classes, \<^verbatim>\<open>\d\<close>, \<^verbatim>\<open>\b\<close>, greedy
  repetition of a single character class (\<^verbatim>\<open>+\<close>, \<^verbatim>\<open>*\<close>, \<^verbatim>\<open>?\<close>, \<^verbatim>\<open>{m,n}\<close>), optional
  groups, alternation and capturing groups. \<open>Rep c lo hi\<close> repeats the class \<open>c\<close>
  between \<open>lo\<close> and \<open>hi\<close> times (\<open>None\<close>: no upper bound).
\<close>

datatype item = Ch int | Digit

datatype cls = One item | AnyOf "item list" | NoneOf "item list"

datatype rx =
    Eps
  | Atom cls
  | Rep cls nat "nat option"
  | WordB
  | Seq rx rx
  | Alt rx rx
  | Opt rx
  | Grp nat rx

definition is_digit :: "int \<Rightarrow> bool" where
  "is_digit c = (48 \<le> c \<and> c \<le> 57)"

definition is_word :: "int \<Rightarrow> bool" where
  "is_word c =
     (if c < 128
      then (48 \<le> c \<and> c \<le> 57) \<or> (65 \<le> c \<and> c \<le> 90) \<or> c = 95 \<or> (97 \<le> c \<and> c \<le> 122)
      else c = 170 \<or> c = 178 \<or> c = 179 \<or> c = 181 \<or> c = 185 \<or> c = 186
        \<or> (188 \<le> c \<and> c \<le> 190) \<or> (192 \<le> c \<and> c \<le> 214) \<or> (216 \<le> c \<and> c \<le> 246)
        \<or> (248 \<le> c \<and> c \<le> 255))"

fun item_ok :: "item \<Rightarrow> int \<Rightarrow> bool" where
  "item_ok (Ch a) c = (c = a)"
| "item_ok Digit c = is_digit c"

fun any_item :: "item list \<Rightarrow> int \<Rightarrow> bool" where
  "any_item [] c = False"
| "any_item (i # is) c = (if item_ok i c then True else any_item is c)"

fun cls_ok :: "cls \<Rightarrow> int \<Rightarrow> bool" where
  "cls_ok (One i) c = item_ok i c"
| "cls_ok (AnyOf is) c = any_item is c"
| "cls_ok (NoneOf is) c = (\<not> any_item is c)"

text \<open>\<^verbatim>\<open>\b\<close>: exactly one of the characters before and after the position is a word character.\<close>

definition at_boundary :: "int option \<Rightarrow> pystr \<Rightarrow> bool" where
  "at_boundary prev rest =
     ((case prev of None \<Rightarrow> False | Some p \<Rightarrow> is_word p)
        \<noteq> (case rest of [] \<Rightarrow> False | c # _ \<Rightarrow> is_word c))"

text \<open>
  A position of the matcher is the previous character, the index and the rest of the
  text. \<open>cands\<close> lists the positions a greedy repetition can stop at, the longest run
  first: these are the points the matcher backtracks to, in that order.
\<close>

type_synonym cand = "int option \<times> nat \<times> pystr"

fun push :: "nat \<Rightarrow> cand \<Rightarrow> cand list \<Rightarrow> cand list" where
  "push 0 cand acc = cand # acc"
| "push (Suc lo) cand acc = acc"

fun more_allowed :: "nat option \<Rightarrow> bool" where
  "more_allowed None = True"
| "more_allowed (Some 0) = False"
| "more_allowed (Some (Suc h)) = True"

fun one_less :: "nat option \<Rightarrow> nat option" where
  "one_less None = None"
| "one_less (Some h) = Some (h - 1)"

fun cands :: "cls \<Rightarrow> nat \<Rightarrow> nat option \<Rightarrow> int option \<Rightarrow> nat \<Rightarrow> pystr \<Rightarrow> cand list \<Rightarrow> cand list"
  and cands_if :: "bool \<Rightarrow> cls \<Rightarrow> nat \<Rightarrow> nat option \<Rightarrow> int \<Rightarrow> nat \<Rightarrow> pystr \<Rightarrow> cand list \<Rightarrow> cand list" where
  "cands c lo hi prev pos [] acc = push lo (prev, pos, []) acc"
| "cands c lo hi prev pos (x # xs) acc =
     cands_if (more_allowed hi \<and> cls_ok c x) c lo hi x pos xs (push lo (prev, pos, x # xs) acc)"
| "cands_if True c lo hi x pos xs acc = cands c (lo - 1) (one_less hi) (Some x) (Suc pos) xs acc"
| "cands_if False c lo hi x pos xs acc = acc"

text \<open>
  The matcher is a backtracking matcher over a stack of what is still to be matched;
  \<open>Close g s\<close> records the span of group \<open>g\<close> opened at \<open>s\<close>. The first alternative
  that leads to a complete match wins, as in Python's \<^verbatim>\<open>re\<close>.
\<close>

datatype frame = Run rx | Close nat nat

type_synonym caps = "(nat \<times> nat \<times> nat) list"

fun rx_weight :: "rx \<Rightarrow> nat" where
  "rx_weight Eps = 1"
| "rx_weight (Atom c) = 1"
| "rx_weight (Rep c lo hi) = 1"
| "rx_weight WordB = 1"
| "rx_weight (Seq a b) = Suc (rx_weight a + rx_weight b)"
| "rx_weight (Alt a b) = Suc (rx_weight a + rx_weight b)"
| "rx_weight (Opt a) = Suc (rx_weight a)"
| "rx_weight (Grp g a) = Suc (Suc (rx_weight a))"

fun frame_weight :: "frame \<Rightarrow> nat" where
  "frame_weight (Run r) = rx_weight r"
| "frame_weight (Close g s) = 1"

text \<open>The first of two results, in the order the matcher tries them.\<close>

fun or_else :: "'a option \<Rightarrow> 'a option \<Rightarrow> 'a option" where
  "or_else (Some r) y = Some r"
| "or_else None y = y"

function match :: "frame list \<Rightarrow> caps \<Rightarrow> int option \<Rightarrow> nat \<Rightarrow> pystr \<Rightarrow> (nat \<times> caps) option"
  and match_if :: "bool \<Rightarrow> frame list \<Rightarrow> caps \<Rightarrow> int option \<Rightarrow> nat \<Rightarrow> pystr \<Rightarrow> (nat \<times> caps) option"
  and try_cands :: "frame list \<Rightarrow> caps \<Rightarrow> cand list \<Rightarrow> (nat \<times> caps) option" where
  "match [] cs prev pos rest = Some (pos, cs)"
| "match (Close g s # k) cs prev pos rest = match k ((g, s, pos) # cs) prev pos rest"
| "match (Run Eps # k) cs prev pos rest = match k cs prev pos rest"
| "match (Run (Atom c) # k) cs prev pos [] = None"
| "match (Run (Atom c) # k) cs prev pos (x # xs) = match_if (cls_ok c x) k cs (Some x) (Suc pos) xs"
| "match (Run (Rep c lo hi) # k) cs prev pos rest =
     try_cands k cs (cands c lo hi prev pos rest [])"
| "match (Run WordB # k) cs prev pos rest = match_if (at_boundary prev rest) k cs prev pos rest"
| "match (Run (Seq a b) # k) cs prev pos rest = match (Run a # Run b # k) cs prev pos rest"
| "match (Run (Alt a b) # k) cs prev pos rest =
     or_else (match (Run a # k) cs prev pos rest) (match (Run b # k) cs prev pos rest)"
| "match (Run (Opt a) # k) cs prev pos rest =
     or_else (match (Run a # k) cs prev pos rest) (match k cs prev pos rest)"
| "match (Run (Grp g a) # k) cs prev pos rest =
     match (Run a # Close g pos # k) cs prev pos rest"
| "match_if True k cs prev pos rest = match k cs prev pos rest"
| "match_if False k cs prev pos rest = None"
| "try_cands k cs [] = None"
| "try_cands k cs ((prev, pos, rest) # more) =
     or_else (match k cs prev pos rest) (try_cands k cs more)"
  by pat_completeness auto
termination
  by (relation "inv_image (less_than <*lex*> less_than)
        (\<lambda>x. case x of
           Inl (k, cs, prev, pos, rest) \<Rightarrow> (2 * sum_list (map frame_weight k), 0)
         | Inr (Inl (b, k, cs, prev, pos, rest)) \<Rightarrow> (2 * sum_list (map frame_weight k) + 1, 0)
         | Inr (Inr (k, cs, cnds)) \<Rightarrow> (2 * sum_list (map frame_weight k) + 1, length cnds))") auto

text \<open>
  \<^verbatim>\<open>re.finditer\<close>: the matches from left to right, not overlapping. After a match
  ending at \<open>e\<close> the search goes on at \<open>e\<close> (at the next position after an empty
  match; no pattern of the source matches the empty string). Each match is its start,
  its end and the spans of its groups. The fourth argument counts the characters still
  inside the last match.
\<close>

fun scan :: "rx \<Rightarrow> int option \<Rightarrow> nat \<Rightarrow> nat \<Rightarrow> pystr \<Rightarrow> (nat \<times> nat \<times> caps) list"
  and scan_next :: "(nat \<times> caps) option \<Rightarrow> rx \<Rightarrow> int \<Rightarrow> nat \<Rightarrow> pystr \<Rightarrow> (nat \<times> nat \<times> caps) list" where
  "scan r prev pos (Suc inside) [] = []"
| "scan r prev pos 0 [] =
     (case match [Run r] [] prev pos [] of
        None \<Rightarrow> []
      | Some (e, cs) \<Rightarrow> [(pos, e, cs)])"
| "scan r prev pos (Suc inside) (x # xs) = scan r (Some x) (Suc pos) inside xs"
| "scan r prev pos 0 (x # xs) = scan_next (match [Run r] [] prev pos (x # xs)) r x pos xs"
| "scan_next None r x pos xs = scan r (Some x) (Suc pos) 0 xs"
| "scan_next (Some (e, cs)) r x pos xs = (pos, e, cs) # scan r (Some x) (Suc pos) (e - Suc pos) xs"

text \<open>
  With \<^verbatim>\<open>re.IGNORECASE\<close> (the inline flag \<^verbatim>\<open>(?i)\<close>) a literal matches a character
  when both have the same lower case: the matcher runs over the case-folded text with
  the case-folded pattern. \<open>lower\<close> keeps the length, so the positions are positions
  of the original text, and the matched strings are cut from the original text.
\<close>

fun fold_item :: "item \<Rightarrow> item" where
  "fold_item (Ch a) = Ch (lower_cp a)"
| "fold_item Digit = Digit"

fun fold_cls :: "cls \<Rightarrow> cls" where
  "fold_cls (One i) = One (fold_item i)"
| "fold_cls (AnyOf is) = AnyOf (map fold_item is)"
| "fold_cls (NoneOf is) = NoneOf (map fold_item is)"

fun fold_rx :: "rx \<Rightarrow> rx" where
  "fold_rx Eps = Eps"
| "fold_rx (Atom c) = Atom (fold_cls c)"
| "fold_rx (Rep c lo hi) = Rep (fold_cls c) lo hi"
| "fold_rx WordB = WordB"
| "fold_rx (Seq a b) = Seq (fold_rx a) (fold_rx b)"
| "fold_rx (Alt a b) = Alt (fold_rx a) (fold_rx b)"
| "fold_rx (Opt a) = Opt (fold_rx a)"
| "fold_rx (Grp g a) = Grp g (fold_rx a)"

definition re_finditer :: "bool \<Rightarrow> rx \<Rightarrow> pystr \<Rightarrow> (nat \<times> nat \<times> caps) list" where
  "re_finditer ic r text =
     (if ic then scan (fold_rx r) None 0 0 (lower text) else scan r None 0 0 text)"

text \<open>\<^verbatim>\<open>re.search(...)\<close> used as a truth value: is there a match anywhere.\<close>

fun search_from :: "rx \<Rightarrow> int option \<Rightarrow> nat \<Rightarrow> pystr \<Rightarrow> bool"
  and search_next :: "(nat \<times> caps) option \<Rightarrow> rx \<Rightarrow> int \<Rightarrow> nat \<Rightarrow> pystr \<Rightarrow> bool" where
  "search_from r prev pos [] = (match [Run r] [] prev pos [] \<noteq> None)"
| "search_from r prev pos (x # xs) = search_next (match [Run r] [] prev pos (x # xs)) r x pos xs"
| "search_next (Some m) r x pos xs = True"
| "search_next None r x pos xs = search_from r (Some x) (Suc pos) xs"

definition re_search :: "bool \<Rightarrow> rx \<Rightarrow> pystr \<Rightarrow> bool" where
  "re_search ic r text =
     (if ic then search_from (fold_rx r) None 0 (lower text) else search_from r None 0 text)"




datatype found = Str pystr | Tuple "pystr list"



text \<open>Writing patterns: a literal string, a sequence, a choice.\<close>

fun lit :: "pystr \<Rightarrow> rx" where
  "lit [] = Eps"
| "lit [c] = Atom (One (Ch c))"
| "lit (c # d # cs) = Seq (Atom (One (Ch c))) (lit (d # cs))"

definition lits :: "string \<Rightarrow> rx" where
  "lits s = lit (py s)"

fun seqs :: "rx list \<Rightarrow> rx" where
  "seqs [] = Eps"
| "seqs [r] = r"
| "seqs (r # q # rs) = Seq r (seqs (q # rs))"

fun alts :: "rx list \<Rightarrow> rx" where
  "alts [] = Eps"
| "alts [r] = r"
| "alts (r # q # rs) = Alt r (alts (q # rs))"



definition digits :: rx where
  "digits = Rep (One Digit) 1 None"

section \<open>Voice guidelines (\<^verbatim>\<open>src/generation/voice_guidelines.py\<close>)\<close>

datatype sig_category = Phrases "pystr list" | ByProgram "(string \<times> pystr list) list"

definition SIGNATURE_PHRASES :: "(string \<times> sig_category) list" where
  "SIGNATURE_PHRASES =
   [(''mission_statements'', Phrases
      [py ''We firmly believe that those who are closest to the issues are also best equipped to solve them.'',
       py ''When people gain access to tools, training, and community, they generate the solutions their neighborhoods need most.'',
       py ''Entrepreneurship is more than a business path'' @ [8212]
         @ py ''it's a tool for reclaiming agency and reshaping local economies.'',
       py ''We champion a new generation of entrepreneurs who prioritize and uplift their neighborhoods.'',
       py ''We create transformative educational programs, technology, and cross-sectoral partnerships that equip program participants with the skills and networks to become founders of organizations driven by social and environmental missions.'']),
    (''community_empowerment'', Phrases
      [py ''For thousands of New Yorkers living in public housing, entrepreneurship is one of the few viable paths to income and ownership.'',
       py ''More than 80% of 2024 participants reported they would not have pursued their venture without this program.'',
       py ''By embedding our accelerator in trusted community spaces, employing NYCHA alumni as instructors, and by providing access to tech and coaching, we create a culturally responsive, high-impact accelerator.'',
       py ''We invite and integrate the feedback of our community members, who we center as experts.'',
       py ''With your support, we will continue to scale a model that transforms untapped potential into community-powered prosperity.'']),
    (''codesign_language'', Phrases
      [py ''co-designed with NYCHA residents and tenant leaders'',
       py ''co-created with community partners'',
       py ''Our approach is based on user-centered design, where we test our assumptions about community needs and engage in two-way dialogues to cultivate empathy before we design.'',
       py ''We center community voices in every aspect of program development.'',
       py ''designed in partnership with those who will benefit most'']),
    (''program_descriptions'', ByProgram
      [(''journey'',
        [py ''Our Journey platform is a gamified learning experience where participants access multimedia lessons, project-based challenges, and live feedback.'',
         py ''Learners earn gemstones they can cash in for prizes, mentorship sessions, and workshops.'',
         py ''All participants gain lifetime access to our alumni community, curriculum, and career opportunities.'',
         py ''Our platform allows us to meet our learners where they are, provide live feedback, and provide an engaging and gamified learning experience.'']),
       (''startup_nycha'',
        [py ''Six-month business accelerator co-designed with NYCHA residents and tenant leaders'',
         py ''At our Fulton Houses pilot, we had 60+ signups in the first week'',
         py ''95% of participants were women of color'',
         py ''Culminates in a public pitch competition with seed funding opportunities'',
         py ''Creates community-powered prosperity'']),
       (''cambio_solar'',
        [py ''Green workforce training leading to industry-recognized certifications like OSHA and GPRO'',
         py ''Community-owned solar businesses and cooperatives'',
         py ''Addresses both environmental and economic justice''])]),
    (''impact_language'', Phrases
      [py ''community-powered prosperity'',
       py ''untapped potential'',
       py ''purpose-driven leaders'',
       py ''social entrepreneurs who solve local challenges'',
       py ''durable skills for 21st century careers'',
       py ''pathways to economic empowerment'',
       py ''generational wealth creation''])]"

definition AI_BUZZWORDS_FORBIDDEN :: "pystr list" where
  "AI_BUZZWORDS_FORBIDDEN = map py
   [''catalyze'', ''leverage'', ''optimize'', ''seamless'', ''seamlessly'',
    ''robust'', ''state-of-the-art'', ''cutting-edge'', ''innovative'',
    ''transformative'', ''groundbreaking'', ''revolutionary'',
    ''at the heart of what we do'', ''at the core of our mission'',
    ''bridge to empowerment'', ''pathway that challenges'',
    ''challenge and change'', ''deeply rooted in'', ''far more than'',
    ''the chasm between'', ''rectifying the'', ''not just... but...'',
    ''ensure'', ''facilitate'', ''enhance'', ''utilize'', ''implement'',
    ''strategic deployment'', ''carefully crafted'', ''testament to'',
    ''commitment to excellence'', ''proven track record'',
    ''we are proud to'', ''we are excited to'', ''we are committed to'',
    ''we are dedicated to'', ''we are deeply committed'', ''we recognize'',
    ''we understand that'', ''we believe in the power'',
    ''transformative movement'', ''pathways that challenge'',
    ''dedicated to creating'', ''driven by a mission to'',
    ''catalyze significant positive change'',
    ''generated'', ''AI-generated'', ''created by AI'', ''produced by'',
    ''this application was'', ''this proposal was created'']"

record violation =
  buzzword :: pystr
  position :: nat
  severity :: pystr

text \<open>
  \<^verbatim>\<open>check_ai_buzzwords\<close>: for each forbidden phrase found in the lower-cased text, one
  violation per occurrence (occurrences may overlap: the search restarts one character
  after each hit).
\<close>

definition buzzword_hits :: "pystr \<Rightarrow> pystr \<Rightarrow> violation list" where
  "buzzword_hits text_lower b =
     (if contains text_lower (lower b)
      then map (\<lambda>pos. \<lparr>buzzword = b, position = pos, severity = py ''high''\<rparr>)
             (find_all text_lower (lower b) 0)
      else [])"

definition check_ai_buzzwords :: "pystr \<Rightarrow> violation list" where
  "check_ai_buzzwords text = concat (map (buzzword_hits (lower text)) AI_BUZZWORDS_FORBIDDEN)"

record missing_element =
  issue :: pystr
  fix_hint :: pystr
  m_severity :: pystr

definition codesign_terms :: "pystr list" where
  "codesign_terms = map py [''co-design'', ''co-created'', ''designed with'', ''tenant leaders'']"

definition check_required_language :: "pystr \<Rightarrow> pystr \<Rightarrow> missing_element list" where
  "check_required_language text section_name =
     (let text_lower = lower text in
      (if contains text_lower (py ''underserved'') \<and> \<not> contains text_lower (py ''underestimated'')
       then [\<lparr>issue = py ''Uses 'underserved' instead of '' @ quoted (py ''underestimated''),
              fix_hint = py ''Replace with '' @ quoted (py ''underestimated communities''),
              m_severity = py ''high''\<rparr>]
       else [])
      @ (if lower section_name \<in> set [py ''methodology'', py ''project description'']
           \<and> \<not> list_ex (contains text_lower) codesign_terms
         then [\<lparr>issue = py ''Missing co-design language'',
                fix_hint = py ''Add phrase like ''
                  @ quoted (py ''co-designed with NYCHA residents and tenant leaders''),
                m_severity = py ''high''\<rparr>]
         else []))"

record vague_issue =
  word :: pystr
  v_position :: nat
  suggestion :: pystr
  v_severity :: pystr

definition vague_words :: "pystr list" where
  "vague_words = map py
     [''many'', ''significant'', ''numerous'', ''various'', ''substantial'', ''considerable'']"

text \<open>\<^verbatim>\<open>r'\b' + word + r'\b'\<close>, searched with \<^verbatim>\<open>re.IGNORECASE\<close>.\<close>

definition word_pattern :: "pystr \<Rightarrow> rx" where
  "word_pattern w = seqs [WordB, lit w, WordB]"

definition vague_matches :: "pystr \<Rightarrow> vague_issue list" where
  "vague_matches text =
     concat (map (\<lambda>w. map (\<lambda>m. \<lparr>word = w, v_position = fst m,
                                  suggestion = py ''Replace with specific data or number'',
                                  v_severity = py ''medium''\<rparr>)
                        (re_finditer True (word_pattern w) text))
                 vague_words)"

text \<open>\<^verbatim>\<open>r'\d+%|\d+ participants|\d+ entrepreneurs|\$\d+|60\+'\<close>\<close>

definition number_pattern :: rx where
  "number_pattern =
     alts [seqs [digits, lits ''%''],
           seqs [digits, lits '' participants''],
           seqs [digits, lits '' entrepreneurs''],
           seqs [lits ''$'', digits],
           lits ''60+'']"

definition has_numbers :: "pystr \<Rightarrow> bool" where
  "has_numbers text = re_search False number_pattern text"

definition no_data_issue :: vague_issue where
  "no_data_issue =
     \<lparr>word = py ''[no specific data]'', v_position = 0,
      suggestion = py ''Add specific metrics, percentages, or participant numbers'',
      v_severity = py ''high''\<rparr>"

definition check_specificity :: "pystr \<Rightarrow> vague_issue list" where
  "check_specificity text =
     vague_matches text
     @ (if \<not> has_numbers text \<and> length text > 200 then [no_data_issue] else [])"

text \<open>
  The score is a Python float that only ever holds whole numbers (it starts at 100.0
  and changes by 3, 5 and 10), so it is an integer here and \<^verbatim>\<open>round(score, 1)\<close> leaves
  it as it is. \<open>get_grade\<close> takes any number.
\<close>

definition get_grade :: "real \<Rightarrow> pystr" where
  "get_grade score =
     (if score \<ge> 95 then py ''A+ (Excellent - sounds like Cambio Labs)''
      else if score \<ge> 90 then py ''A (Very Good - minor tweaks needed)''
      else if score \<ge> 85 then py ''B+ (Good - some revisions needed)''
      else if score \<ge> 80 then py ''B (Acceptable - needs improvement)''
      else if score \<ge> 70 then py ''C (Weak - significant revisions needed)''
      else py ''D/F (Poor - does not sound like Cambio Labs)'')"

text \<open>
  The bonus loops: within one list of phrases the first phrase found adds 5 and ends
  the loop over that list.
\<close>

fun phrase_bonus :: "pystr \<Rightarrow> pystr list \<Rightarrow> int \<Rightarrow> int"
  and phrase_next :: "bool \<Rightarrow> pystr \<Rightarrow> pystr list \<Rightarrow> int \<Rightarrow> int" where
  "phrase_bonus text_lower [] score = score"
| "phrase_bonus text_lower (phrase # phrases) score =
     phrase_next (contains text_lower (lower phrase)) text_lower phrases score"
| "phrase_next True text_lower phrases score = score + 5"
| "phrase_next False text_lower phrases score = phrase_bonus text_lower phrases score"

fun category_bonus :: "pystr \<Rightarrow> sig_category \<Rightarrow> int \<Rightarrow> int" where
  "category_bonus text_lower (Phrases phrases) score = phrase_bonus text_lower phrases score"
| "category_bonus text_lower (ByProgram d) score =
     fold (\<lambda>entry. phrase_bonus text_lower (snd entry)) d score"

definition signature_bonus :: "pystr \<Rightarrow> int \<Rightarrow> int" where
  "signature_bonus text_lower score =
     fold (\<lambda>entry. category_bonus text_lower (snd entry)) SIGNATURE_PHRASES score"

record voice_evaluation =
  score :: int
  grade :: pystr
  issues :: "pystr list"
  buzzwords :: nat
  missing_required :: nat
  vague_count :: nat

definition buzzword_issue :: "violation \<Rightarrow> pystr" where
  "buzzword_issue v = py ''AI buzzword: '' @ quoted (buzzword v)"

definition vague_issue_text :: "vague_issue \<Rightarrow> pystr" where
  "vague_issue_text v = py ''Vague language: '' @ quoted (word v)"

text \<open>The points before the final clamp to \<open>[0, 100]\<close>.\<close>

definition voice_points :: "pystr \<Rightarrow> pystr \<Rightarrow> int" where
  "voice_points text section_name =
     signature_bonus (lower text)
       (100 - 5 * int (length (check_ai_buzzwords text))
            - 10 * int (length (check_required_language text section_name))
            - 3 * int (length (take 5 (check_specificity text))))"

definition calculate_voice_score :: "pystr \<Rightarrow> pystr \<Rightarrow> voice_evaluation" where
  "calculate_voice_score text section_name =
     (let buzzword_violations = check_ai_buzzwords text;
          missing_language = check_required_language text section_name;
          vague_language = check_specificity text;
          final = min 100 (max 0 (voice_points text section_name))
      in \<lparr>score = final,
          grade = get_grade (of_int final),
          issues = map buzzword_issue buzzword_violations
                   @ map issue missing_language
                   @ map vague_issue_text (take 5 vague_language),
          buzzwords = length buzzword_violations,
          missing_required = length missing_language,
          vague_count = length vague_language\<rparr>)"

section \<open>Extraction (\<^verbatim>\<open>src/rag/enhanced_vector_store.py\<close>)\<close>

text \<open>
  A fragment is a Python dict. \<^verbatim>\<open>{"text": t, "category": c, **metadata}\<close> writes the
  metadata's entries last, so they replace entries with the same key.
\<close>

datatype pyval = PStr pystr | PInt int

type_synonym pydict = "string \<rightharpoonup> pyval"
























subsection \<open>Chunks\<close>

definition CHUNK_SIZE :: int where
  "CHUNK_SIZE = 1500"

definition CHUNK_OVERLAP :: int where
  "CHUNK_OVERLAP = 200"

text \<open>
  One round of the loop of \<^verbatim>\<open>chunk_text\<close>: the chunk it appends and the next value of
  \<^verbatim>\<open>start\<close>. The test \<^verbatim>\<open>break_point > chunk_size * 0.7\<close> is written with integers;
  for the configured size the float product is exactly 1050.
\<close>

definition chunk_step :: "pystr \<Rightarrow> int \<Rightarrow> int \<Rightarrow> int \<Rightarrow> pystr \<times> int" where
  "chunk_step text chunk_size overlap start =
     (let stop = start + chunk_size;
          chunk = slice text start stop
      in if stop < int (length text)
         then (let last_period = rfind chunk 46;
                   last_newline = rfind chunk 10;
                   break_point = max last_period last_newline
               in if 10 * break_point > 7 * chunk_size
                  then (strip (slice chunk 0 (break_point + 1)), start + break_point + 1 - overlap)
                  else (strip chunk, stop - overlap))
         else (strip chunk, stop - overlap))"

text \<open>The \<^verbatim>\<open>while start < len(text)\<close> loop; it need not end for every size and overlap.\<close>

partial_function (option) chunk_loop :: "pystr \<Rightarrow> int \<Rightarrow> int \<Rightarrow> int \<Rightarrow> pystr list \<Rightarrow> pystr list option" where
  "chunk_loop text chunk_size overlap start chunks =
     (if start < int (length text)
      then chunk_loop text chunk_size overlap (snd (chunk_step text chunk_size overlap start))
             (chunks @ [fst (chunk_step text chunk_size overlap start)])
      else Some chunks)"

definition chunk_text :: "pystr \<Rightarrow> int \<Rightarrow> int \<Rightarrow> pystr list option" where
  "chunk_text text chunk_size overlap =
     (if int (length text) \<le> chunk_size then Some [text]
      else chunk_loop text chunk_size overlap 0 [])"

subsection \<open>Retrieval\<close>

text \<open>
  The vector database and the embedding service are outside the repository. A
  collection is whatever the database holds; a query is a function of the collection,
  the query vector and the number of results asked for, and like the embedding call it
  can fail. The raw answer has the lists \<^verbatim>\<open>documents\<close>, \<^verbatim>\<open>metadatas\<close> and, when the key
  is there, \<^verbatim>\<open>distances\<close>, each with one inner list per query vector.
\<close>

datatype error = ExternalError | IndexError | TypeError | UnboundLocalError

record raw_results =
  documents :: "pystr list list"
  metadatas :: "pydict list list"
  distances :: "real list list option"

record retrieved =
  r_text :: pystr
  r_metadata :: pydict
  r_distance :: "real option"

text \<open>
  \<^verbatim>\<open>_format_results\<close> reads \<^verbatim>\<open>documents[0][i]\<close>, \<^verbatim>\<open>metadatas[0][i]\<close> and
  \<^verbatim>\<open>distances[0][i]\<close> for each \<open>i\<close>; a list that is too short raises.
\<close>

fun format_rows :: "pystr list \<Rightarrow> pydict list \<Rightarrow> real list option \<Rightarrow> error + retrieved list" where
  "format_rows [] ms ds = Inr []"
| "format_rows (d # docs) [] ds = Inl IndexError"
| "format_rows (d # docs) (m # ms) None =
     (case format_rows docs ms None of
        Inl e \<Rightarrow> Inl e
      | Inr rows \<Rightarrow> Inr (\<lparr>r_text = d, r_metadata = m, r_distance = None\<rparr> # rows))"
| "format_rows (d # docs) (m # ms) (Some []) = Inl IndexError"
| "format_rows (d # docs) (m # ms) (Some (x # xs)) =
     (case format_rows docs ms (Some xs) of
        Inl e \<Rightarrow> Inl e
      | Inr rows \<Rightarrow> Inr (\<lparr>r_text = d, r_metadata = m, r_distance = Some x\<rparr> # rows))"

definition format_results :: "raw_results \<Rightarrow> error + retrieved list" where
  "format_results raw =
     (case documents raw of
        [] \<Rightarrow> Inr []
      | d0 # _ \<Rightarrow>
          if d0 = [] then Inr []
          else (case metadatas raw of
                  [] \<Rightarrow> Inl IndexError
                | m0 # _ \<Rightarrow>
                    (case distances raw of
                       None \<Rightarrow> format_rows d0 m0 None
                     | Some [] \<Rightarrow> Inl IndexError
                     | Some (x0 # _) \<Rightarrow> format_rows d0 m0 (Some x0))))"

record 'c collections =
  full_content :: 'c
  voice_phrases :: 'c
  data_metrics :: 'c
  participant_voices :: 'c
  codesign_examples :: 'c
  program_descriptions :: 'c

record retrieval =
  content :: "retrieved list"
  voice :: "retrieved list"
  data :: "retrieved list"
  quotes :: "retrieved list"
  codesign :: "retrieved list"
  programs :: "retrieved list"

text \<open>A step that can raise, followed by the rest of the function.\<close>

definition and_then :: "error + 'a \<Rightarrow> ('a \<Rightarrow> error + 'b) \<Rightarrow> error + 'b" where
  "and_then x f = (case x of Inl e \<Rightarrow> Inl e | Inr v \<Rightarrow> f v)"

definition query_formatted ::
  "('c \<Rightarrow> 'v \<Rightarrow> int \<Rightarrow> error + raw_results) \<Rightarrow> 'c \<Rightarrow> 'v \<Rightarrow> int \<Rightarrow> error + retrieved list" where
  "query_formatted query collection query_embedding n_results =
     and_then (query collection query_embedding n_results) format_results"

definition retrieve_multi_layer ::
  "(pystr \<Rightarrow> error + 'v) \<Rightarrow> ('c \<Rightarrow> 'v \<Rightarrow> int \<Rightarrow> error + raw_results) \<Rightarrow> 'c collections
     \<Rightarrow> pystr \<Rightarrow> pystr \<Rightarrow> int \<Rightarrow> int \<Rightarrow> int \<Rightarrow> int \<Rightarrow> int \<Rightarrow> int \<Rightarrow> error + retrieval" where
  "retrieve_multi_layer embed_text query store query_text section_name
       n_content n_voice n_data n_quotes n_codesign n_programs =
     and_then (embed_text query_text) (\<lambda>query_embedding.
     and_then (query_formatted query (full_content store) query_embedding n_content) (\<lambda>content_results.
     and_then (query_formatted query (voice_phrases store) query_embedding n_voice) (\<lambda>voice_results.
     and_then (query_formatted query (data_metrics store) query_embedding n_data) (\<lambda>data_results.
     and_then (if lower section_name \<in> set [py ''need statement'', py ''evaluation plan'']
               then query_formatted query (participant_voices store) query_embedding n_quotes
               else Inr []) (\<lambda>quote_results.
     and_then (if lower section_name \<in> set [py ''methodology'', py ''project description'']
               then query_formatted query (codesign_examples store) query_embedding n_codesign
               else Inr []) (\<lambda>codesign_results.
     and_then (query_formatted query (program_descriptions store) query_embedding n_programs) (\<lambda>program_results.
     Inr \<lparr>content = content_results, voice = voice_results, data = data_results,
          quotes = quote_results, codesign = codesign_results,
          programs = program_results\<rparr>)))))))"

section \<open>Generation (\<^verbatim>\<open>src/generation/enhanced_generator.py\<close>)\<close>

text \<open>
  The language model is outside the repository: a call either raises or returns a
  text and a token count. The model below is given every call's outcome as a function
  of the number of the attempt and the temperature of the call.
\<close>

datatype lm_outcome = Raises | Completes pystr nat

record attempt_record =
  attempt_no :: nat
  attempt_score :: int
  attempt_tokens :: nat
  attempt_issues :: "pystr list"

text \<open>
  The variables of the retry loop. \<open>best_score\<close> starts as the integer 0 and becomes
  \<^verbatim>\<open>None\<close> only when validation is off; \<open>tokens_used\<close> is unbound until a call returns.
\<close>

record loop_state =
  best_text :: "pystr option"
  best_score :: "int option"
  attempts :: "attempt_record list"
  temperature :: rat
  tokens_used :: "nat option"

definition min_voice_score :: int where
  "min_voice_score = 85"

text \<open>What one attempt that returned does to the variables, and whether the loop breaks.\<close>

definition completed_attempt ::
  "bool \<Rightarrow> bool \<Rightarrow> pystr \<Rightarrow> nat \<Rightarrow> nat \<Rightarrow> pystr \<Rightarrow> nat \<Rightarrow> loop_state \<Rightarrow> error + (bool \<times> loop_state)" where
  "completed_attempt auto_validate auto_fix section_name max_attempts attempt reply tokens st =
     (let generated_text = strip reply;
          st1 = st\<lparr>tokens_used := Some tokens\<rparr>
      in if auto_validate
         then (let voice_evaluation = calculate_voice_score generated_text section_name;
                   sc = score voice_evaluation
               in case best_score st1 of
                    None \<Rightarrow> Inl TypeError
                  | Some best \<Rightarrow>
                      (let st2 = (if sc > best
                                  then st1\<lparr>best_score := Some sc, best_text := Some generated_text\<rparr>
                                  else st1);
                           st3 = st2\<lparr>attempts := attempts st2 @
                                   [\<lparr>attempt_no = attempt + 1, attempt_score = sc,
                                     attempt_tokens = tokens,
                                     attempt_issues = issues voice_evaluation\<rparr>]\<rparr>
                       in if sc \<ge> min_voice_score \<or> \<not> auto_fix then Inr (True, st3)
                          else if attempt + 1 < max_attempts
                          then Inr (False, st3\<lparr>temperature := min (9 / 10) (temperature st3 + 1 / 10)\<rparr>)
                          else Inr (False, st3)))
         else Inr (True, st1\<lparr>best_text := Some generated_text, best_score := None\<rparr>))"

text \<open>
  \<^verbatim>\<open>for attempt in range(max_attempts)\<close>: an exception of the call is swallowed unless
  the attempt is the last one.
\<close>

fun attempt_loop ::
  "bool \<Rightarrow> bool \<Rightarrow> (nat \<Rightarrow> rat \<Rightarrow> lm_outcome) \<Rightarrow> pystr \<Rightarrow> nat \<Rightarrow> nat list \<Rightarrow> loop_state
     \<Rightarrow> error + loop_state" where
  "attempt_loop auto_validate auto_fix lm section_name max_attempts [] st = Inr st"
| "attempt_loop auto_validate auto_fix lm section_name max_attempts (attempt # rest) st =
     (case lm attempt (temperature st) of
        Raises \<Rightarrow>
          if attempt + 1 = max_attempts then Inl ExternalError
          else attempt_loop auto_validate auto_fix lm section_name max_attempts rest st
      | Completes reply tokens \<Rightarrow>
          (case completed_attempt auto_validate auto_fix section_name max_attempts attempt
                  reply tokens st of
             Inl e \<Rightarrow> Inl e
           | Inr (stop, st') \<Rightarrow>
               if stop then Inr st'
               else attempt_loop auto_validate auto_fix lm section_name max_attempts rest st'))"

record section_result =
  result_text :: "pystr option"
  result_section :: pystr
  voice_score :: "int option"
  result_tokens :: nat
  result_attempts :: "attempt_record list"

definition initial_state :: "rat \<Rightarrow> loop_state" where
  "initial_state temp =
     \<lparr>best_text = None, best_score = Some 0, attempts = [], temperature = temp,
      tokens_used = None\<rparr>"

text \<open>
  The retry loop of \<^verbatim>\<open>generate_section\<close> and the result built after it. The total is
  \<^verbatim>\<open>sum(a['tokens'] for a in attempts) if attempts else tokens_used\<close>, which reads an
  unbound variable when no call was made.
\<close>

definition generate_section ::
  "bool \<Rightarrow> bool \<Rightarrow> (nat \<Rightarrow> rat \<Rightarrow> lm_outcome) \<Rightarrow> pystr \<Rightarrow> rat \<Rightarrow> nat \<Rightarrow> error + section_result" where
  "generate_section auto_validate auto_fix lm section_name temp max_attempts =
     and_then (attempt_loop auto_validate auto_fix lm section_name max_attempts
                 [0..<max_attempts] (initial_state temp)) (\<lambda>st.
     and_then (if attempts st \<noteq> [] then Inr (sum_list (map attempt_tokens (attempts st)))
               else (case tokens_used st of None \<Rightarrow> Inl UnboundLocalError | Some n \<Rightarrow> Inr n))
       (\<lambda>tokens_used_total.
     Inr \<lparr>result_text = best_text st, result_section = section_name,
          voice_score = best_score st, result_tokens = tokens_used_total,
          result_attempts = attempts st\<rparr>))"

text \<open>
  \<^verbatim>\<open>round(x, 1)\<close>: to the nearest tenth, a tie to the even tenth. The quotient is an
  exact fraction here; the float quotient of the source differs from it by less than
  any difference between two scores' means.
\<close>

definition round1 :: "rat \<Rightarrow> rat" where
  "round1 x =
     (let t = x * 10; f = \<lfloor>t\<rfloor>; r = t - of_int f
      in if r < 1 / 2 then of_int f / 10
         else if r > 1 / 2 then of_int (f + 1) / 10
         else if even f then of_int f / 10 else of_int (f + 1) / 10)"

record application =
  app_sections :: "pystr \<rightharpoonup> pystr option"
  app_section_scores :: "pystr \<rightharpoonup> int option"
  total_tokens :: nat
  sections_generated :: nat
  voice_scores :: "pystr \<rightharpoonup> int"
  avg_voice_score :: rat

record app_state =
  application_so_far :: application
  total_score :: int
  sections_with_scores :: nat

text \<open>\<^verbatim>\<open>if result.get("voice_score"):\<close> is true for a score that is neither \<^verbatim>\<open>None\<close> nor 0.\<close>

fun truthy :: "int option \<Rightarrow> bool" where
  "truthy None = False"
| "truthy (Some v) = (v \<noteq> 0)"

definition add_section :: "pystr \<Rightarrow> section_result \<Rightarrow> app_state \<Rightarrow> app_state" where
  "add_section section_name result st =
     (let app = application_so_far st;
          app1 = app\<lparr>app_sections := (app_sections app)(section_name \<mapsto> result_text result),
                     total_tokens := total_tokens app + result_tokens result,
                     app_section_scores :=
                       (app_section_scores app)(section_name \<mapsto> voice_score result)\<rparr>
      in if truthy (voice_score result)
         then st\<lparr>application_so_far :=
                    app1\<lparr>voice_scores :=
                           (voice_scores app1)(section_name \<mapsto> the (voice_score result))\<rparr>,
                  total_score := total_score st + the (voice_score result),
                  sections_with_scores := sections_with_scores st + 1\<rparr>
         else st\<lparr>application_so_far := app1\<rparr>)"

text \<open>
  The loop over the sections. \<open>gen i name\<close> is what the \<open>i\<close>-th call of
  \<^verbatim>\<open>generate_section\<close> does; an exception of it ends the whole run.
\<close>

fun section_loop ::
  "(nat \<Rightarrow> pystr \<Rightarrow> error + section_result) \<Rightarrow> nat \<Rightarrow> pystr list \<Rightarrow> app_state \<Rightarrow> error + app_state" where
  "section_loop gen i [] st = Inr st"
| "section_loop gen i (section_name # rest) st =
     (case gen i section_name of
        Inl e \<Rightarrow> Inl e
      | Inr result \<Rightarrow> section_loop gen (Suc i) rest (add_section section_name result st))"

definition DEFAULT_SECTIONS :: "pystr list" where
  "DEFAULT_SECTIONS = map py
     [''Executive Summary'', ''Need Statement'', ''Project Description'', ''Methodology'',
      ''Evaluation Plan'', ''Budget Narrative'']"

definition empty_application :: "nat \<Rightarrow> application" where
  "empty_application n =
     \<lparr>app_sections = Map.empty, app_section_scores = Map.empty, total_tokens = 0,
      sections_generated = n, voice_scores = Map.empty, avg_voice_score = 0\<rparr>"

definition generate_full_application ::
  "(nat \<Rightarrow> pystr \<Rightarrow> error + section_result) \<Rightarrow> pystr list \<Rightarrow> error + application" where
  "generate_full_application gen sections_arg =
     (let sections = (if sections_arg = [] then DEFAULT_SECTIONS else sections_arg)
      in and_then (section_loop gen 0 sections
                     \<lparr>application_so_far = empty_application (length sections),
                      total_score = 0, sections_with_scores = 0\<rparr>) (\<lambda>st.
         Inr (if sections_with_scores st > 0
              then (application_so_far st)
                     \<lparr>avg_voice_score :=
                        round1 (of_int (total_score st) / of_nat (sections_with_scores st))\<rparr>
              else application_so_far st)))"

section \<open>Refinement (\<^verbatim>\<open>src/generation/generator.py\<close>)\<close>

definition ai_slop_phrases :: "pystr list" where
  "ai_slop_phrases = map py
     [''core mission is to'', ''carefully crafted'', ''testament to'', ''transformative movement'',
      ''pathways that challenge'', ''dedicated to creating'', ''commitment to excellence'',
      ''proven track record'', ''state-of-the-art'', ''cutting-edge'', ''we are proud to'',
      ''we are excited to'', ''we are committed to'', ''we are dedicated to'']"

definition slop_count :: "pystr \<Rightarrow> nat" where
  "slop_count refined_text =
     length (filter (\<lambda>phrase. contains (lower refined_text) (lower phrase)) ai_slop_phrases)"

text \<open>
  What \<^verbatim>\<open>refine_section\<close> returns once the language model has answered. The ratio
  \<^verbatim>\<open>refined_text.count(' ') / len(refined_text)\<close> is an exact fraction here.
\<close>

definition checked_refinement :: "pystr \<Rightarrow> pystr \<Rightarrow> pystr" where
  "checked_refinement original_text reply =
     (let refined_text = strip reply
      in if slop_count refined_text \<ge> 3 then original_text
         else if length refined_text > 100
         then (let space_ratio = (of_nat (count_char refined_text 32) :: rat)
                                   / of_nat (length refined_text)
               in if space_ratio < 1 / 10 then original_text else refined_text)
         else refined_text)"

definition refine_section :: "lm_outcome \<Rightarrow> pystr \<Rightarrow> error + pystr" where
  "refine_section response original_text =
     (case response of
        Raises \<Rightarrow> Inl ExternalError
      | Completes reply tokens \<Rightarrow> Inr (checked_refinement original_text reply))"

section \<open>Notions of the specification and the inputs of the scenarios\<close>

text \<open>
  The six grades from the lowest to the highest, the rank of a grade in that order, and
  the bands of the specification with the cutoffs 70, 80, 85, 90 and 95.
\<close>

definition grade_labels :: "pystr list" where
  "grade_labels =
     [py ''D/F (Poor - does not sound like Cambio Labs)'',
      py ''C (Weak - significant revisions needed)'',
      py ''B (Acceptable - needs improvement)'',
      py ''B+ (Good - some revisions needed)'',
      py ''A (Very Good - minor tweaks needed)'',
      py ''A+ (Excellent - sounds like Cambio Labs)'']"

definition grade_rank :: "pystr \<Rightarrow> nat" where
  "grade_rank g = length (takeWhile (\<lambda>l. l \<noteq> g) grade_labels)"

definition band :: "real \<Rightarrow> nat" where
  "band s = (if s < 70 then 0 else if s < 80 then 1 else if s < 85 then 2
             else if s < 90 then 3 else if s < 95 then 4 else 5)"

definition scenario_B :: pystr where
  "scenario_B = py ''We leverage our innovative platform to ensure significant positive change for underserved communities.''"

definition scenario_B_issues :: "pystr list" where
  "scenario_B_issues =
     [py ''AI buzzword: '' @ quoted (py ''leverage''),
      py ''AI buzzword: '' @ quoted (py ''innovative''),
      py ''AI buzzword: '' @ quoted (py ''ensure''),
      py ''Uses 'underserved' instead of '' @ quoted (py ''underestimated''),
      py ''Vague language: '' @ quoted (py ''significant'')]"











section \<open>The voice score\<close>

lemma grade_ranks: "map grade_rank grade_labels = [0, 1, 2, 3, 4, 5]"
  by code_simp

lemma get_grade_band: "get_grade s = grade_labels ! band s"
  by (simp add: get_grade_def band_def grade_labels_def)

lemma band_less: "band s < 6"
  by (simp add: band_def)

lemma grade_rank_get_grade: "grade_rank (get_grade s) = band s"
proof -
  have "length grade_labels = 6" by (simp add: grade_labels_def)
  with band_less [of s] have "map grade_rank grade_labels ! band s = grade_rank (grade_labels ! band s)"
    by simp
  moreover have "[0, 1, 2, 3, 4, 5] ! band s = band s"
    using band_less [of s] by (simp add: band_def)
  ultimately show ?thesis
    by (simp add: get_grade_band grade_ranks)
qed

lemma band_mono: "s \<le> t \<Longrightarrow> band s \<le> band t"
  by (simp add: band_def)

lemma score_bounds:
  "0 \<le> score (calculate_voice_score text section_name)
     \<and> score (calculate_voice_score text section_name) \<le> 100"
  by (simp add: calculate_voice_score_def Let_def)

lemma grade_of_score:
  "grade (calculate_voice_score text section_name)
     = get_grade (of_int (score (calculate_voice_score text section_name)))"
  by (simp add: calculate_voice_score_def Let_def)

text \<open>
  Claim C1. For every text and every section name the score lies in \<open>[0, 100]\<close> and the
  grade is the grade of that score. The grade is a step function of the score with six
  bands cut at 70, 80, 85, 90 and 95: the rank of the grade of a score is the band of the
  score, so two scores of one band have the same grade, and the grade of a larger score
  never ranks below the grade of a smaller one.
\<close>

theorem voice_score_range_and_grade_bands:
  "0 \<le> score (calculate_voice_score text section_name)
   \<and> score (calculate_voice_score text section_name) \<le> 100
   \<and> grade (calculate_voice_score text section_name)
       = get_grade (of_int (score (calculate_voice_score text section_name)))
   \<and> length grade_labels = 6 \<and> distinct grade_labels
   \<and> get_grade s \<in> set grade_labels
   \<and> grade_rank (get_grade s) = band s
   \<and> (band s = band u \<longrightarrow> get_grade s = get_grade u)
   \<and> (s \<le> t \<longrightarrow> grade_rank (get_grade s) \<le> grade_rank (get_grade t))"
proof -
  have six: "length grade_labels = 6" by (simp add: grade_labels_def)
  have "distinct (map grade_rank grade_labels)" by (simp add: grade_ranks)
  then have dist: "distinct grade_labels" by (simp add: distinct_map)
  have mem: "get_grade s \<in> set grade_labels"
    using band_less [of s] six by (simp add: get_grade_band)
  have same: "band s = band u \<longrightarrow> get_grade s = get_grade u"
    by (simp add: get_grade_band)
  have mono: "s \<le> t \<longrightarrow> grade_rank (get_grade s) \<le> grade_rank (get_grade t)"
    by (simp add: grade_rank_get_grade band_mono)
  from score_bounds [of "text" section_name] grade_of_score [of "text" section_name]
    six dist mem same mono grade_rank_get_grade [of s]
  show ?thesis by blast
qed

theorem voice_score_range_and_grade_bands_witness:
  "band 72 = band 75 \<and> (72 :: real) \<le> 96
   \<and> get_grade 72 = get_grade 75
   \<and> grade_rank (get_grade 72) \<le> grade_rank (get_grade 96)
   \<and> grade_rank (get_grade 96) = 5
   \<and> 0 \<le> score (calculate_voice_score scenario_B (py ''Executive Summary''))
   \<and> score (calculate_voice_score scenario_B (py ''Executive Summary'')) \<le> 100"
  using voice_score_range_and_grade_bands
          [of scenario_B "py ''Executive Summary''" 72 75 96]
        voice_score_range_and_grade_bands [of scenario_B "py ''Executive Summary''" 96 96 96]
  by (auto simp add: band_def)

subsection \<open>Scenario B\<close>

lemma scenario_B_buzzwords:
  "check_ai_buzzwords scenario_B =
     [\<lparr>buzzword = py ''leverage'', position = 3, severity = py ''high''\<rparr>,
      \<lparr>buzzword = py ''innovative'', position = 16, severity = py ''high''\<rparr>,
      \<lparr>buzzword = py ''ensure'', position = 39, severity = py ''high''\<rparr>]"
  by code_simp

lemma scenario_B_specificity:
  "check_specificity scenario_B =
     [\<lparr>word = py ''significant'', v_position = 46,
       suggestion = py ''Replace with specific data or number'', v_severity = py ''medium''\<rparr>]"
  by code_simp

lemma scenario_B_bonus: "signature_bonus (lower scenario_B) n = n"
  by code_simp

lemma scenario_B_underserved:
  "contains (lower scenario_B) (py ''underserved'')
     \<and> \<not> contains (lower scenario_B) (py ''underestimated'')"
  by code_simp

lemma scenario_B_required:
  "lower section_name \<notin> set [py ''methodology'', py ''project description''] \<Longrightarrow>
   map issue (check_required_language scenario_B section_name)
     = [py ''Uses 'underserved' instead of '' @ quoted (py ''underestimated'')]"
  using scenario_B_underserved by (simp add: check_required_language_def Let_def)

lemma scenario_B_evaluation:
  assumes "lower section_name \<notin> set [py ''methodology'', py ''project description'']"
  shows "calculate_voice_score scenario_B section_name =
     \<lparr>score = 72, grade = py ''C (Weak - significant revisions needed)'',
      issues = scenario_B_issues, buzzwords = 3, missing_required = 1, vague_count = 1\<rparr>"
proof -
  from scenario_B_required [OF assms]
  have len: "length (check_required_language scenario_B section_name) = 1"
    by (metis length_map length_Cons list.size(3) One_nat_def)
  have pts: "voice_points scenario_B section_name = 72"
    by (simp add: voice_points_def scenario_B_buzzwords scenario_B_specificity scenario_B_bonus len)
  show ?thesis
    by (simp add: calculate_voice_score_def Let_def pts len scenario_B_buzzwords
          scenario_B_specificity scenario_B_required [OF assms] get_grade_def
          buzzword_issue_def vague_issue_text_def scenario_B_issues_def)
qed

lemma scenario_B_issues_distinct: "distinct scenario_B_issues \<and> length scenario_B_issues = 5"
  by code_simp

lemma executive_summary_plain:
  "lower (py ''Executive Summary'') \<notin> set [py ''methodology'', py ''project description'']"
  by code_simp

text \<open>
  Claim C2, as stated: the text of scenario B scores strictly below 70. It does not:
  for the section \<^verbatim>\<open>Executive Summary\<close> the score is not below 70. The list of forbidden
  phrases has three of the words of the text (\<^verbatim>\<open>leverage\<close>, \<^verbatim>\<open>innovative\<close>, \<^verbatim>\<open>ensure\<close>;
  \<^verbatim>\<open>underserved\<close> is not in that list), and the text has 102 characters, so the
  deduction for missing data, which needs more than 200, does not apply.
\<close>

theorem scenario_B_not_below_70:
  "\<not> score (calculate_voice_score scenario_B (py ''Executive Summary'')) < 70"
  by (simp add: scenario_B_evaluation [OF executive_summary_plain])

text \<open>
  Claim C2, amended. For every section name outside the co-design subset the text of
  scenario B scores exactly 72 (100 less 15 for three forbidden phrases, 10 for
  \<^verbatim>\<open>underserved\<close> without \<^verbatim>\<open>underestimated\<close> and 3 for one vague word), which is grade C
  and below the acceptance threshold of 85, and it lists exactly five issues, all
  different.
\<close>

theorem scenario_B_scores_72:
  assumes "lower section_name \<notin> set [py ''methodology'', py ''project description'']"
  shows "score (calculate_voice_score scenario_B section_name) = 72
    \<and> score (calculate_voice_score scenario_B section_name) < min_voice_score
    \<and> grade (calculate_voice_score scenario_B section_name)
        = py ''C (Weak - significant revisions needed)''
    \<and> issues (calculate_voice_score scenario_B section_name) = scenario_B_issues
    \<and> length (issues (calculate_voice_score scenario_B section_name)) = 5
    \<and> distinct (issues (calculate_voice_score scenario_B section_name))"
  using scenario_B_issues_distinct
  by (simp add: scenario_B_evaluation [OF assms] min_voice_score_def)

theorem scenario_B_scores_72_witness:
  "lower (py ''Executive Summary'') \<notin> set [py ''methodology'', py ''project description'']
   \<and> score (calculate_voice_score scenario_B (py ''Executive Summary'')) = 72
   \<and> length (issues (calculate_voice_score scenario_B (py ''Executive Summary''))) = 5
   \<and> distinct (issues (calculate_voice_score scenario_B (py ''Executive Summary'')))"
  using scenario_B_scores_72 [OF executive_summary_plain] executive_summary_plain
  by blast

subsection \<open>The deduction for missing data\<close>

















section \<open>Fragments and the document\<close>


























subsection \<open>Chunks\<close>


lemma chunk_step_advance:
  "snd (chunk_step text CHUNK_SIZE CHUNK_OVERLAP start) \<ge> start + 852"
  by (auto simp: chunk_step_def Let_def CHUNK_SIZE_def CHUNK_OVERLAP_def)

lemma chunk_loop_total:
  "\<exists>chunks'. chunk_loop text CHUNK_SIZE CHUNK_OVERLAP start chunks = Some chunks'"
proof (induction "nat (int (length text) - start)" arbitrary: start chunks rule: less_induct)
  case (less start)
  note IH = less.hyps
  show ?case
  proof (cases "start < int (length text)")
    case True
    let ?next = "snd (chunk_step text CHUNK_SIZE CHUNK_OVERLAP start)"
    from chunk_step_advance [of start "text"] True
    have "nat (int (length text) - ?next) < nat (int (length text) - start)" by linarith
    from IH [OF this] True show ?thesis
      by (subst chunk_loop.simps) simp
  next
    case False
    then show ?thesis by (subst chunk_loop.simps) simp
  qed
qed



text \<open>
  Claim C10. With the configured chunk size 1500 and overlap 200, \<^verbatim>\<open>chunk_text\<close>
  returns for every text. In every round of its loop the start index grows by more
  than \<open>0.7 \<cdot> 1500 - 200 = 850\<close> characters (by at least 852), because the cut at a
  sentence boundary is taken only when the break point lies past 70 percent of the
  chunk size.
\<close>

theorem chunk_text_terminates:
  "(\<exists>chunks. chunk_text text CHUNK_SIZE CHUNK_OVERLAP = Some chunks)
   \<and> (\<forall>start. 10 * (snd (chunk_step text CHUNK_SIZE CHUNK_OVERLAP start) - start)
          > 7 * CHUNK_SIZE - 10 * CHUNK_OVERLAP)
   \<and> (\<forall>start. snd (chunk_step text CHUNK_SIZE CHUNK_OVERLAP start) - start > 850)
   \<and> (\<forall>start chunks. \<exists>chunks'.
          chunk_loop text CHUNK_SIZE CHUNK_OVERLAP start chunks = Some chunks')"
proof -
  have adv: "snd (chunk_step text CHUNK_SIZE CHUNK_OVERLAP start) - start > 850" for start
    using chunk_step_advance [of start "text"] by linarith
  have "10 * (snd (chunk_step text CHUNK_SIZE CHUNK_OVERLAP start) - start)
               > 7 * CHUNK_SIZE - 10 * CHUNK_OVERLAP" for start
    using chunk_step_advance [of start "text"]
    by (simp add: CHUNK_SIZE_def CHUNK_OVERLAP_def)
  moreover have "\<exists>chunks. chunk_text text CHUNK_SIZE CHUNK_OVERLAP = Some chunks"
    by (simp add: chunk_text_def chunk_loop_total)
  ultimately show ?thesis using adv chunk_loop_total by blast
qed

subsection \<open>Fragments of the extraction functions\<close>










subsection \<open>Scenario A\<close>







end
